theory Spec2Isabelle
  imports Complex_Main
begin

section \<open>Python values\<close>

text \<open>
  Text is a list of characters. The inputs of the parsers below are ASCII text; the one
  non-ASCII character the program prints, the infinity sign U+221E, is written as the three
  bytes of its UTF-8 encoding.

  A Python \<open>float\<close> is a finite value, an infinity or NaN. Finite values are exact
  rationals: the rounding error of binary floating point is not part of this model.
  A Python \<open>int\<close> is an unbounded integer.
\<close>

datatype pyfloat = Fin rat | PInf | NInf | NaN

datatype pynum = PyInt int | PyFloat pyfloat

fun float_of :: "pynum \<Rightarrow> pyfloat" where
  "float_of (PyInt i) = Fin (of_int i)"
| "float_of (PyFloat f) = f"

fun fl_less :: "pyfloat \<Rightarrow> pyfloat \<Rightarrow> bool" where
  "fl_less (Fin a) (Fin b) = (a < b)"
| "fl_less (Fin a) PInf = True"
| "fl_less NInf (Fin b) = True"
| "fl_less NInf PInf = True"
| "fl_less a b = False"

definition num_less :: "pynum \<Rightarrow> pynum \<Rightarrow> bool" where
  "num_less a b = fl_less (float_of a) (float_of b)"

definition num_eq :: "pynum \<Rightarrow> pynum \<Rightarrow> bool" where
  "num_eq a b = (float_of a = float_of b \<and> float_of a \<noteq> NaN)"

fun fl_abs :: "pyfloat \<Rightarrow> pyfloat" where
  "fl_abs (Fin a) = Fin \<bar>a\<bar>"
| "fl_abs PInf = PInf"
| "fl_abs NInf = PInf"
| "fl_abs NaN = NaN"

text \<open>\<open>x >= float('inf')\<close>\<close>

definition ge_infinity :: "pyfloat \<Rightarrow> bool" where
  "ge_infinity x = (x = PInf)"

text \<open>Multiplication of a float by a positive finite constant.\<close>

fun fl_mul :: "pyfloat \<Rightarrow> rat \<Rightarrow> pyfloat" where
  "fl_mul (Fin a) k = Fin (a * k)"
| "fl_mul x k = x"

definition round_half_even :: "rat \<Rightarrow> int" where
  "round_half_even x =
     (let f = \<lfloor>x\<rfloor>; d = x - of_int f
      in if d < 1 / 2 then f else if 1 / 2 < d then f + 1 else if even f then f else f + 1)"

datatype error =
    NotANumber string
  | CannotConvert string string
  | TooSmall pynum
  | TooBig pynum
  | BadPrefix string
  | BadUnit string
  | OverflowError
  | NaNToInteger
  | TypeError
  | WithInput error string
  | AttributeError string
  | StdErr string
  | NotABoolean string
  | NotOneOf "string list"
  | TooLong pynum
  | TooShort pynum

section \<open>Text helpers\<close>

definition is_digit :: "char \<Rightarrow> bool" where
  "is_digit c = (48 \<le> (of_char c :: nat) \<and> (of_char c :: nat) \<le> 57)"

text \<open>The ASCII characters for which \<open>str.isspace\<close> holds; \<open>\s\<close> of a pattern matches the same.\<close>

definition is_space :: "char \<Rightarrow> bool" where
  "is_space c = ((of_char c :: nat) \<in> set [9, 10, 11, 12, 13, 28, 29, 30, 31, 32])"

definition lower_char :: "char \<Rightarrow> char" where
  "lower_char c = (let n = (of_char c :: nat) in if 65 \<le> n \<and> n \<le> 90 then char_of (n + 32) else c)"

definition lower :: "string \<Rightarrow> string" where
  "lower s = map lower_char s"

definition rstrip :: "(char \<Rightarrow> bool) \<Rightarrow> string \<Rightarrow> string" where
  "rstrip p s = rev (dropWhile p (rev s))"

definition strip :: "(char \<Rightarrow> bool) \<Rightarrow> string \<Rightarrow> string" where
  "strip p s = rstrip p (dropWhile p s)"

definition digit_char :: "nat \<Rightarrow> char" where
  "digit_char d = char_of (48 + d)"

function show_nat :: "nat \<Rightarrow> string" where
  "show_nat n = (if n < 10 then [digit_char n] else show_nat (n div 10) @ [digit_char (n mod 10)])"
  by pat_completeness auto
termination
  by (relation "measure id") auto

declare show_nat.simps [simp del]

definition show_int :: "int \<Rightarrow> string" where
  "show_int i = (if i < 0 then CHR ''-'' # show_nat (nat (- i)) else show_nat (nat i))"

definition digits_value :: "string \<Rightarrow> nat" where
  "digits_value s = foldl (\<lambda>a c. 10 * a + ((of_char c :: nat) - 48)) 0 s"

definition infinity_sign :: string where
  "infinity_sign = [char_of (226 :: nat), char_of (136 :: nat), char_of (158 :: nat)]"

section \<open>\<open>_pretty_float\<close>\<close>

text \<open>\<open>'%.<d>f' % q\<close> for a finite \<open>q\<close>.\<close>

definition fmt_f :: "nat \<Rightarrow> rat \<Rightarrow> string" where
  "fmt_f d q =
     (let s = nat (round_half_even (\<bar>q\<bar> * 10 ^ d));
          ip = s div 10 ^ d;
          fp = show_nat (s mod 10 ^ d)
      in (if q < 0 then ''-'' else '''') @ show_nat ip @
         (if d = 0 then '''' else CHR ''.'' # replicate (d - length fp) CHR ''0'' @ fp))"

text \<open>\<open>round(x, d)\<close> for a finite non-negative \<open>x\<close>.\<close>

definition round_to :: "nat \<Rightarrow> rat \<Rightarrow> rat" where
  "round_to d x = of_int (round_half_even (x * 10 ^ d)) / 10 ^ d"

text \<open>\<open>int(n_abs)\<close> raises for NaN, after \<open>round(nan, 2)\<close> has returned NaN.\<close>

fun pretty_float :: "pyfloat \<Rightarrow> error + string" where
  "pretty_float PInf = Inr infinity_sign"
| "pretty_float NInf = Inr (CHR ''-'' # infinity_sign)"
| "pretty_float NaN = Inl NaNToInteger"
| "pretty_float (Fin n) =
     (let n_abs = \<bar>n\<bar> in
      if n_abs = 0 then Inr ''0''
      else let n_abs_r2 = round_to 2 n_abs in
        if n_abs_r2 = of_int \<lfloor>n_abs\<rfloor> then Inr (fmt_f 0 n)
        else if n_abs_r2 < 10 then Inr (rstrip (\<lambda>c. c = CHR ''0'') (fmt_f 2 n))
        else if round_to 1 n_abs < 100 then Inr (rstrip (\<lambda>c. c = CHR ''0'') (fmt_f 1 n))
        else Inr (fmt_f 0 n))"


section \<open>Numbers: \<open>_NumberMixin\<close>, \<open>Float\<close> and \<open>Int\<close>\<close>

datatype number_cls = IntCls | FloatCls

text \<open>The dictionary \<open>self._args\<close>.\<close>

record number_args =
  unit :: "string option"
  prefix :: string
  hide_unit :: bool
  min_v :: "pynum option"
  max_v :: "pynum option"
  precise :: bool

text \<open>
  An instance of \<open>Int\<close> or \<open>Float\<close>: its class, its value as the parent type holds it
  (\<open>PyInt\<close> for \<open>Int\<close>, \<open>PyFloat\<close> for \<open>Float\<close>) and \<open>_args\<close>. The attributes
  \<open>_parent_type\<close>, \<open>_prefixes\<close> and \<open>_str\<close> are functions of these.
\<close>

record number =
  cls :: number_cls
  val :: pynum
  args :: number_args

text \<open>The keyword arguments of \<open>__new__\<close>; \<open>None\<close> is the default of each.\<close>

record kwargs =
  kw_unit :: "string option"
  kw_convert_to :: "string option"
  kw_prefix :: "string option"
  kw_hide_unit :: "bool option"
  kw_min :: "pynum option"
  kw_max :: "pynum option"
  kw_precise :: bool

definition no_kwargs :: kwargs where
  "no_kwargs = \<lparr>kw_unit = None, kw_convert_to = None, kw_prefix = None, kw_hide_unit = None,
                 kw_min = None, kw_max = None, kw_precise = False\<rparr>"

text \<open>\<open>**self._args\<close>\<close>

definition kwargs_of_args :: "number_args \<Rightarrow> kwargs" where
  "kwargs_of_args a = \<lparr>kw_unit = unit a, kw_convert_to = None, kw_prefix = Some (prefix a),
                        kw_hide_unit = Some (hide_unit a), kw_min = min_v a, kw_max = max_v a,
                        kw_precise = precise a\<rparr>"

text \<open>The value passed to \<open>__new__\<close>: a string, a plain number, or an instance.\<close>

datatype raw = RStr string | RPlain pynum | RInst number

text \<open>The same once strings are parsed.\<close>

datatype numval = NPlain pynum | NInst number

fun numval_num :: "numval \<Rightarrow> pynum" where
  "numval_num (NPlain v) = v"
| "numval_num (NInst n) = val n"

subsection \<open>The tables and the pattern\<close>

definition prefixes_binary :: "(string \<times> rat) list" where
  "prefixes_binary = [(''Ti'', 1024 ^ 4), (''Gi'', 1024 ^ 3), (''Mi'', 1024 ^ 2), (''Ki'', 1024)]"

definition prefixes_metric :: "(string \<times> rat) list" where
  "prefixes_metric = [(''T'', 1000 ^ 4), (''G'', 1000 ^ 3), (''M'', 1000 ^ 2), (''k'', 1000)]"

text \<open>\<open>chain.from_iterable(zip(_prefixes_binary, _prefixes_metric))\<close>\<close>

definition prefixes_zipped :: "(string \<times> rat) list" where
  "prefixes_zipped = concat (map (\<lambda>(b, m). [b, m]) (zip prefixes_binary prefixes_metric))"

definition prefixes_dct :: "string \<Rightarrow> rat option" where
  "prefixes_dct = map_of (map (\<lambda>(p, sz). (lower p, sz)) prefixes_zipped)"

text \<open>
  The pattern is anchored at both ends, and neither a magnitude prefix nor a unit can hold
  a digit or white space, so the leftmost-first search of the matcher has one candidate only:
  the longest number, one space if there is one, the first prefix of the alternation that
  is there, and the rest as the unit. \<open>$\<close> also matches before a final newline.
\<close>

definition match_sign :: "string \<Rightarrow> string \<times> string" where
  "match_sign s =
     (case s of
        c # cs \<Rightarrow> if c = CHR ''-'' \<or> c = CHR ''+'' then ([c], cs) else ('''', s)
      | [] \<Rightarrow> ('''', s))"

definition match_number :: "string \<Rightarrow> (string \<times> string) option" where
  "match_number s =
     (let (sign, r) = match_sign s;
          d1 = takeWhile is_digit r;
          r1 = dropWhile is_digit r;
          d2 = takeWhile is_digit (drop 1 r1);
          r2 = dropWhile is_digit (drop 1 r1)
      in if d1 \<noteq> [] \<and> take 1 r1 = ''.'' \<and> d2 \<noteq> [] then Some (sign @ d1 @ ''.'' @ d2, r2)
         else if d1 \<noteq> [] then Some (sign @ d1, r1)
         else if take 1 r1 = ''.'' \<and> d2 \<noteq> [] then Some (sign @ ''.'' @ d2, r2)
         else if lower (take 3 r) = ''inf'' then Some (sign @ take 3 r, drop 3 r)
         else None)"

definition match_prefix :: "string \<Rightarrow> string \<times> string" where
  "match_prefix s =
     (case find (\<lambda>p. lower (take (length p) s) = lower p) (map fst prefixes_zipped) of
        Some p \<Rightarrow> (take (length p) s, drop (length p) s)
      | None \<Rightarrow> ('''', s))"

definition match_unit :: "string \<Rightarrow> string option" where
  "match_unit s =
     (let u = (if s \<noteq> [] \<and> last s = char_of (10 :: nat) then butlast s else s)
      in if list_all (\<lambda>c. \<not> is_space c \<and> \<not> is_digit c) u then Some u else None)"

definition regex_match :: "string \<Rightarrow> (string \<times> string \<times> string) option" where
  "regex_match s =
     (case match_number s of
        None \<Rightarrow> None
      | Some (g1, r) \<Rightarrow>
          (let (g2, r') = match_prefix (if take 1 r = '' '' then drop 1 r else r)
           in case match_unit r' of None \<Rightarrow> None | Some g3 \<Rightarrow> Some (g1, g2, g3)))"

text \<open>\<open>float(s)\<close> for a string \<open>s\<close> that the first group of the pattern has matched.\<close>

definition py_float :: "string \<Rightarrow> pyfloat" where
  "py_float s =
     (let (sign, body) = match_sign s;
          ip = takeWhile is_digit body;
          fp = drop 1 (dropWhile is_digit body);
          m = of_nat (digits_value ip) + of_nat (digits_value fp) / 10 ^ length fp
      in if lower body = ''inf'' then (if sign = ''-'' then NInf else PInf)
         else Fin (if sign = ''-'' then - m else m))"

subsection \<open>\<open>__new__\<close>\<close>

datatype conversion = Times8 | Over8

text \<open>The dictionary \<open>converters\<close>: bytes to bits, bits to bytes.\<close>

definition converters :: "string \<Rightarrow> string \<Rightarrow> conversion option" where
  "converters u t =
     (if u = ''B'' \<and> t = ''b'' then Some Times8
      else if u = ''b'' \<and> t = ''B'' then Some Over8
      else None)"

fun convert :: "conversion \<Rightarrow> pynum \<Rightarrow> pynum" where
  "convert Times8 (PyInt i) = PyInt (i * 8)"
| "convert Times8 (PyFloat f) = PyFloat (fl_mul f 8)"
| "convert Over8 (PyInt i) = PyFloat (Fin (of_int i / 8))"
| "convert Over8 (PyFloat f) = PyFloat (fl_mul f (1 / 8))"

text \<open>\<open>round(value)\<close> of a plain number.\<close>

fun py_round :: "pynum \<Rightarrow> error + pynum" where
  "py_round (PyInt i) = Inr (PyInt i)"
| "py_round (PyFloat (Fin q)) = Inr (PyInt (round_half_even q))"
| "py_round (PyFloat NaN) = Inl NaNToInteger"
| "py_round (PyFloat x) = Inl OverflowError"

text \<open>What the parent type's \<open>__new__\<close> makes of the value.\<close>

fun parent_value :: "number_cls \<Rightarrow> pynum \<Rightarrow> error + pynum" where
  "parent_value FloatCls v = Inr (PyFloat (float_of v))"
| "parent_value IntCls (PyInt i) = Inr (PyInt i)"
| "parent_value IntCls (PyFloat (Fin q)) = Inr (PyInt (if q < 0 then \<lceil>q\<rceil> else \<lfloor>q\<rfloor>))"
| "parent_value IntCls (PyFloat NaN) = Inl NaNToInteger"
| "parent_value IntCls (PyFloat x) = Inl OverflowError"

definition check_bounds :: "pynum \<Rightarrow> pynum option \<Rightarrow> pynum option \<Rightarrow> error option" where
  "check_bounds value mn mx =
     (if mn \<noteq> None \<and> num_less value (the mn) then Some (TooSmall (the mn))
      else if mx \<noteq> None \<and> num_less (the mx) value then Some (TooBig (the mx))
      else None)"

text \<open>
  The end of \<open>__new__\<close>, from the check of the bounds on, for the number that \<open>value\<close> holds
  by then.
\<close>

definition finish ::
  "number_cls \<Rightarrow> pynum \<Rightarrow> string option \<Rightarrow> string \<Rightarrow> bool \<Rightarrow> pynum option \<Rightarrow> pynum option \<Rightarrow> bool
     \<Rightarrow> error + number" where
  "finish c value unt prfx hide mn mx prec =
     (case check_bounds value mn mx of
        Some e \<Rightarrow> Inl e
      | None \<Rightarrow>
          (case parent_value c value of
             Inl e \<Rightarrow> Inl e
           | Inr v \<Rightarrow>
               if prfx = ''binary'' \<or> prfx = ''metric''
               then Inr \<lparr>cls = c, val = v,
                         args = \<lparr>unit = unt, prefix = prfx, hide_unit = hide,
                                 min_v = mn, max_v = mx, precise = prec\<rparr>\<rparr>
               else Inl (BadPrefix prfx)))"

text \<open>
  The class of the result of \<open>_do_math\<close>: \<open>int(result)\<close> raises for minus infinity, which
  is below \<open>_INFINITY\<close>.
\<close>

fun result_cls :: "pynum \<Rightarrow> error + number_cls" where
  "result_cls (PyInt i) = Inr IntCls"
| "result_cls (PyFloat (Fin q)) = Inr (if of_int \<lfloor>q\<rfloor> = q then IntCls else FloatCls)"
| "result_cls (PyFloat NInf) = Inl OverflowError"
| "result_cls (PyFloat x) = Inr FloatCls"

text \<open>
  An operator of an instance, applied inside \<open>__new__\<close> to an instance of the other class
  (\<open>value * 8\<close>, \<open>value / 8\<close>, \<open>round(value)\<close>): \<open>_do_math\<close> with a result \<open>r\<close> of the parent
  type's method, which \<open>result_cls(result, **self._args)\<close> wraps; \<open>result\<close> is a plain number
  there, so that this call of \<open>__new__\<close> neither parses nor converts.
\<close>

definition inst_math :: "number \<Rightarrow> (pynum \<Rightarrow> error + pynum) \<Rightarrow> error + number" where
  "inst_math n f =
     (case (if ge_infinity (float_of (val n)) then Inr (PyFloat PInf) else f (val n)) of
        Inl e \<Rightarrow> Inl e
      | Inr result \<Rightarrow>
          (case result_cls result of
             Inl e \<Rightarrow> Inl e
           | Inr c \<Rightarrow>
               (case (if c = IntCls then py_round result else Inr result) of
                  Inl e \<Rightarrow> Inl e
                | Inr v \<Rightarrow> finish c v (unit (args n)) (prefix (args n)) (hide_unit (args n))
                            (min_v (args n)) (max_v (args n)) (precise (args n)))))"

fun numval_apply :: "(pynum \<Rightarrow> error + pynum) \<Rightarrow> numval \<Rightarrow> error + numval" where
  "numval_apply f (NPlain v) = map_sum id NPlain (f v)"
| "numval_apply f (NInst n) = map_sum id NInst (inst_math n f)"

text \<open>\<open># Parse strings\<close>\<close>

definition parse_strings ::
  "raw \<Rightarrow> string option \<Rightarrow> string \<Rightarrow> error + numval \<times> string option \<times> string" where
  "parse_strings value unt prfx =
     (case value of
        RPlain v \<Rightarrow> Inr (NPlain v, unt, prfx)
      | RInst n \<Rightarrow> Inr (NInst n, unt, prfx)
      | RStr string \<Rightarrow>
          (case regex_match string of
             None \<Rightarrow> Inl (NotANumber string)
           | Some (g1, g2, g3) \<Rightarrow>
               Inr (NPlain (PyFloat (if g2 \<noteq> '''' then fl_mul (py_float g1) (the (prefixes_dct (lower g2)))
                                    else py_float g1)),
                    if g3 \<noteq> '''' then Some g3 else unt,
                    if length g2 = 2 then ''binary'' else if length g2 = 1 then ''metric'' else prfx)))"

text \<open>\<open># Scale number to different unit\<close>\<close>

definition scale ::
  "numval \<Rightarrow> string option \<Rightarrow> string option \<Rightarrow> error + numval \<times> string option" where
  "scale value unt convert_to =
     (case convert_to of
        None \<Rightarrow> Inr (value, unt)
      | Some t \<Rightarrow>
          if unt = Some t then Inr (value, unt)
          else (case unt of
                  None \<Rightarrow> Inr (value, Some t)
                | Some u \<Rightarrow>
                    (case converters u t of
                       None \<Rightarrow> Inl (CannotConvert u t)
                     | Some cv \<Rightarrow>
                         (case numval_apply (\<lambda>v. Inr (convert cv v)) value of
                            Inl e \<Rightarrow> Inl e
                          | Inr value' \<Rightarrow> Inr (value', Some t)))))"

definition number_new :: "number_cls \<Rightarrow> raw \<Rightarrow> kwargs \<Rightarrow> error + number" where
  "number_new c value kw =
     (let (unt, prfx, hide, value) =
            (case value of
               RInst n \<Rightarrow>
                 if cls n = c
                 then (if kw_unit kw \<noteq> None then kw_unit kw else unit (args n),
                       if kw_prefix kw \<noteq> None then kw_prefix kw else Some (prefix (args n)),
                       if kw_hide_unit kw \<noteq> None then kw_hide_unit kw else Some (hide_unit (args n)),
                       RPlain (PyFloat (float_of (val n))))
                 else (kw_unit kw, kw_prefix kw, kw_hide_unit kw, value)
             | _ \<Rightarrow> (kw_unit kw, kw_prefix kw, kw_hide_unit kw, value));
          prfx = (case prfx of None \<Rightarrow> ''metric'' | Some p \<Rightarrow> p);
          hide = (case hide of None \<Rightarrow> False | Some h \<Rightarrow> h)
      in case parse_strings value unt prfx of
           Inl e \<Rightarrow> Inl e
         | Inr (value, unt, prfx) \<Rightarrow>
             (case scale value unt (kw_convert_to kw) of
                Inl e \<Rightarrow> Inl e
              | Inr (value, unt) \<Rightarrow>
                  (case (if c = IntCls then numval_apply py_round value else Inr value) of
                     Inl e \<Rightarrow> Inl e
                   | Inr value \<Rightarrow>
                       finish c (numval_num value) unt prfx hide (kw_min kw) (kw_max kw)
                         (kw_precise kw))))"

abbreviation Float :: "raw \<Rightarrow> kwargs \<Rightarrow> error + number" where
  "Float \<equiv> number_new FloatCls"


subsection \<open>\<open>string\<close> and \<open>__str__\<close>\<close>

definition get_unit :: "number \<Rightarrow> bool \<Rightarrow> string" where
  "get_unit n unit_flag =
     (if unit_flag then (case unit (args n) of Some unit_str \<Rightarrow> unit_str | None \<Rightarrow> '''')
      else '''')"

text \<open>\<open>self._prefixes\<close>, which \<open>__new__\<close> has set from the prefix it accepted.\<close>

definition prefixes_of :: "number \<Rightarrow> (string \<times> rat) list" where
  "prefixes_of n = (if prefix (args n) = ''binary'' then prefixes_binary else prefixes_metric)"

text \<open>\<open>absolute >= size\<close>\<close>

definition fl_ge :: "pyfloat \<Rightarrow> rat \<Rightarrow> bool" where
  "fl_ge x sz = (x \<noteq> NaN \<and> \<not> fl_less x (Fin sz))"

definition stringify :: "number \<Rightarrow> error + string" where
  "stringify n =
     (case find (\<lambda>(p, sz). fl_ge (fl_abs (float_of (val n))) sz) (prefixes_of n) of
        Some (p, sz) \<Rightarrow> map_sum id (\<lambda>s. s @ p) (pretty_float (fl_mul (float_of (val n)) (1 / sz)))
      | None \<Rightarrow> pretty_float (float_of (val n)))"

text \<open>
  \<open>float_repr\<close> is \<open>str\<close> of a plain Python float, the shortest decimal that reads back as
  the same float; only the precise mode of a \<open>Float\<close> uses it.
\<close>

definition number_string :: "(pyfloat \<Rightarrow> string) \<Rightarrow> number \<Rightarrow> bool \<Rightarrow> bool \<Rightarrow> error + string" where
  "number_string float_repr n unit_flag prec =
     (if num_eq (val n) (PyInt 0) then Inr ''0''
      else if ge_infinity (fl_abs (float_of (val n))) then pretty_float (float_of (val n))
      else if prec then
        (case parent_value (cls n) (val n) of
           Inl e \<Rightarrow> Inl e
         | Inr v \<Rightarrow>
             Inr (rstrip (\<lambda>c. c = CHR ''.'')
                    (rstrip (\<lambda>c. c = CHR ''0'')
                       (case v of PyInt i \<Rightarrow> show_int i | PyFloat x \<Rightarrow> float_repr x))
                  @ get_unit n unit_flag))
      else map_sum id (\<lambda>s. s @ get_unit n unit_flag) (stringify n))"

text \<open>\<open>__str__\<close>: \<open>self._str = partial(self.string, unit=not hide_unit, precise=precise)\<close>\<close>

definition number_str :: "(pyfloat \<Rightarrow> string) \<Rightarrow> number \<Rightarrow> error + string" where
  "number_str float_repr n =
     number_string float_repr n (\<not> hide_unit (args n)) (precise (args n))"

subsection \<open>\<open>_do_math\<close>\<close>

datatype funcname =
  Add | Sub | Mul | Div | TrueDiv | FloorDiv | Mod | DivMod | Pow | Floor | Ceil | Round

datatype pytype = TInt | TFloat

text \<open>
  What a method of the built-in \<open>int\<close> or \<open>float\<close> gives when it does not return
  \<open>NotImplemented\<close>: a number, something else (the pair of \<open>__divmod__\<close>, a complex power),
  or an exception.
\<close>

datatype eres = Res pynum | NonNumber | Raises error

text \<open>
  The arithmetic of the built-in types is not code of this program: \<open>ev t f x ys\<close> is the
  method \<open>f\<close> of the type \<open>t\<close> applied to \<open>x\<close> and the numbers \<open>ys\<close>.
\<close>

type_synonym builtins = "pytype \<Rightarrow> funcname \<Rightarrow> pynum \<Rightarrow> pynum list \<Rightarrow> eres"

datatype pyarg = APlain pynum | ANum number

fun arg_num :: "pyarg \<Rightarrow> pynum" where
  "arg_num (APlain v) = v"
| "arg_num (ANum n) = val n"

fun is_float_arg :: "pyarg \<Rightarrow> bool" where
  "is_float_arg (APlain (PyInt i)) = False"
| "is_float_arg (APlain (PyFloat x)) = True"
| "is_float_arg (ANum n) = (cls n = FloatCls)"

fun type_of :: "pynum \<Rightarrow> pytype" where
  "type_of (PyInt i) = TInt"
| "type_of (PyFloat x) = TFloat"

definition parent_type :: "number \<Rightarrow> pytype" where
  "parent_type n = (case cls n of IntCls \<Rightarrow> TInt | FloatCls \<Rightarrow> TFloat)"

definition binary :: "funcname \<Rightarrow> bool" where
  "binary f = (f \<in> set [Add, Sub, Mul, Div, TrueDiv, FloorDiv, Mod, DivMod, Pow])"

text \<open>
  A binary method of \<open>int\<close> returns \<open>NotImplemented\<close> (here \<open>None\<close>) for a float operand;
  the methods of \<open>float\<close> take both.
\<close>

definition py_call :: "builtins \<Rightarrow> pytype \<Rightarrow> funcname \<Rightarrow> pynum \<Rightarrow> pyarg list \<Rightarrow> eres option" where
  "py_call ev t f x as =
     (if t = TInt \<and> binary f \<and> as \<noteq> [] \<and> is_float_arg (hd as) then None
      else Some (ev t f x (map arg_num as)))"

text \<open>\<open># Determine the appropriate class\<close> and \<open># Create new instance with copied properties\<close>\<close>

definition rewrap :: "number \<Rightarrow> eres \<Rightarrow> error + number" where
  "rewrap self r =
     (case r of
        Raises e \<Rightarrow> Inl e
      | NonNumber \<Rightarrow> Inl TypeError
      | Res result \<Rightarrow>
          (case result_cls result of
             Inl e \<Rightarrow> Inl e
           | Inr c \<Rightarrow> number_new c (RPlain result) (kwargs_of_args (args self))))"

text \<open>The same for a result that is itself an instance.\<close>

definition rewrap_inst :: "number \<Rightarrow> number \<Rightarrow> error + number" where
  "rewrap_inst self result =
     (case (if cls result = IntCls then Inr IntCls else result_cls (PyFloat (float_of (val result)))) of
        Inl e \<Rightarrow> Inl e
      | Inr c \<Rightarrow> number_new c (RInst result) (kwargs_of_args (args self)))"

text \<open>\<open>None\<close> is the return value \<open>NotImplemented\<close>.\<close>

function do_math :: "builtins \<Rightarrow> number \<Rightarrow> funcname \<Rightarrow> pyarg list \<Rightarrow> (error + number) option" where
  "do_math ev self f as =
     (if ge_infinity (float_of (val self)) then Some (rewrap self (Res (PyFloat PInf)))
      else case py_call ev (parent_type self) f (val self) as of
             Some r \<Rightarrow> Some (rewrap self r)
           | None \<Rightarrow>
               (case as of
                  [] \<Rightarrow> Some (Inl TypeError)
                | APlain v # _ \<Rightarrow>
                    (case py_call ev (type_of v) f v [ANum self] of
                       None \<Rightarrow> None
                     | Some r \<Rightarrow> Some (rewrap self r))
                | ANum other # _ \<Rightarrow>
                    (case do_math ev other f [ANum self] of
                       None \<Rightarrow> None
                     | Some (Inl e) \<Rightarrow> Some (Inl e)
                     | Some (Inr result) \<Rightarrow> Some (rewrap_inst self result))))"
  by pat_completeness auto
termination
proof (relation "measure (\<lambda>(ev, self, f, as). if cls self = IntCls \<and> as \<noteq> [] \<and> is_float_arg (hd as) then 1 else 0)")
  show "wf (measure (\<lambda>(ev, self, f, as). if cls self = IntCls \<and> as \<noteq> [] \<and> is_float_arg (hd as) then 1 else (0::nat)))"
    by simp
next
  fix ev :: builtins and self f as x21 x22 x2
  assume "py_call ev (parent_type self) f (val self) as = None" and "as = x21 # x22" and "x21 = ANum x2"
  then show "((ev, x2, f, [ANum self]), (ev, self, f, as))
       \<in> measure (\<lambda>(ev, self, f, as). if cls self = IntCls \<and> as \<noteq> [] \<and> is_float_arg (hd as) then 1 else 0)"
    by (auto simp: py_call_def parent_type_def split: if_splits number_cls.splits)
qed

declare do_math.simps [simp del]

text \<open>
  Addition and subtraction of the built-in types, which the \<open>set\<close> command applies; the
  other methods are those of \<open>ev\<close>.
\<close>

fun fl_neg :: "pyfloat \<Rightarrow> pyfloat" where
  "fl_neg (Fin a) = Fin (- a)"
| "fl_neg PInf = NInf"
| "fl_neg NInf = PInf"
| "fl_neg NaN = NaN"

fun fl_add :: "pyfloat \<Rightarrow> pyfloat \<Rightarrow> pyfloat" where
  "fl_add (Fin a) (Fin b) = Fin (a + b)"
| "fl_add NaN y = NaN"
| "fl_add x NaN = NaN"
| "fl_add PInf NInf = NaN"
| "fl_add NInf PInf = NaN"
| "fl_add (Fin a) y = y"
| "fl_add x y = x"

fun py_add :: "pytype \<Rightarrow> pynum \<Rightarrow> pynum \<Rightarrow> pynum" where
  "py_add TInt (PyInt i) (PyInt j) = PyInt (i + j)"
| "py_add t x y = PyFloat (fl_add (float_of x) (float_of y))"

fun py_sub :: "pytype \<Rightarrow> pynum \<Rightarrow> pynum \<Rightarrow> pynum" where
  "py_sub TInt (PyInt i) (PyInt j) = PyInt (i - j)"
| "py_sub t x y = PyFloat (fl_add (float_of x) (fl_neg (float_of y)))"

fun py_arith :: "builtins \<Rightarrow> builtins" where
  "py_arith ev t Add x [y] = Res (py_add t x y)"
| "py_arith ev t Sub x [y] = Res (py_sub t x y)"
| "py_arith ev t f x ys = ev t f x ys"

section \<open>The other stringable types\<close>







section \<open>The unit converter\<close>

record converter =
  conv_unit :: string
  conv_prefix :: string

text \<open>The dictionary \<open>_short\<close> and \<open>_short.get(unit, unit)\<close>.\<close>

definition short :: "string option \<Rightarrow> string option" where
  "short u = (if u = Some ''bit'' then Some ''b'' else if u = Some ''byte'' then Some ''B'' else u)"

text \<open>
  \<open>num.unit\<close>: the instances of \<open>Float\<close> have the attributes \<open>_parent_type\<close>, \<open>_str\<close>,
  \<open>_prefixes\<close> and \<open>_args\<close>, the classes \<open>_NumberMixin\<close> and \<open>StringableMixin\<close> define
  \<open>converters\<close>, the prefix tables, \<open>_regex\<close>, \<open>syntax\<close>, \<open>string\<close>, \<open>partial\<close> and the
  operators, and \<open>float\<close> has no attribute of that name: the look-up raises.
\<close>

definition number_getattr_unit :: "number \<Rightarrow> error + string option" where
  "number_getattr_unit num = Inl (AttributeError ''unit'')"

definition ensure_unit_and_prefix :: "converter \<Rightarrow> number \<Rightarrow> error + number" where
  "ensure_unit_and_prefix self num =
     (case number_getattr_unit num of
        Inl e \<Rightarrow> Inl e
      | Inr u \<Rightarrow>
          (let unit_given = (if u \<noteq> None \<and> u \<noteq> Some '''' then the u else conv_unit self)
           in if unit_given \<notin> set [''bit'', ''byte'', ''b'', ''B'']
              then Inl (BadUnit unit_given)
              else Float (RInst num)
                     (no_kwargs\<lparr>kw_convert_to := Some (conv_unit self),
                                kw_prefix := Some (conv_prefix self)\<rparr>)))"

text \<open>\<open>__call__\<close>; the number is a plain number, a string, or an instance of \<open>Float\<close> or \<open>Int\<close>.\<close>

definition converter_call :: "converter \<Rightarrow> raw \<Rightarrow> string option \<Rightarrow> error + number" where
  "converter_call self num unt =
     (let unt = short unt
      in case (case num of
                 RInst n \<Rightarrow>
                   if cls n = FloatCls then Inr n
                   else Float num (no_kwargs\<lparr>kw_prefix := Some (conv_prefix self),
                          kw_unit := Some (if unt \<noteq> None \<and> unt \<noteq> Some '''' then the unt else conv_unit self)\<rparr>)
               | _ \<Rightarrow> Float num (no_kwargs\<lparr>kw_prefix := Some (conv_prefix self),
                          kw_unit := Some (if unt \<noteq> None \<and> unt \<noteq> Some '''' then the unt else conv_unit self)\<rparr>)) of
           Inl e \<Rightarrow> Inl e
         | Inr n \<Rightarrow> ensure_unit_and_prefix self n)"

section \<open>The commands \<open>set\<close> and \<open>reset\<close>\<close>

text \<open>The exceptions that \<open>except ValueError\<close> catches.\<close>

fun is_ValueError :: "error \<Rightarrow> bool" where
  "is_ValueError OverflowError = False"
| "is_ValueError TypeError = False"
| "is_ValueError (AttributeError a) = False"
| "is_ValueError e = True"

text \<open>
  \<open>CmdError()\<close>, \<open>CmdError('%s = %s: %s' % (name, shown, e))\<close>, or an exception that the
  command does not catch.
\<close>

datatype cmd_error = CmdError | CmdErrorValue string string error | Uncaught error

text \<open>A value on its way through the command: text, a list of arguments, or a number.\<close>

datatype cmdval = VStr string | VSeq "string list" | VNum number

text \<open>The current value of a setting.\<close>

datatype cfgval = CNum number | CText string | CSeq "string list"

definition usertypes_Float :: "raw \<Rightarrow> error + number" where
  \<comment> \<open>Modelled from the spec: the module \<open>usertypes\<close> is not under src/; its \<open>Float\<close> is the
      Number of the specification, whose constructor is the one of \<open>stringables\<close>.\<close>
  "usertypes_Float value = Float value no_kwargs"

definition number_copy :: "number \<Rightarrow> pynum option \<Rightarrow> pynum option \<Rightarrow> number" where
  \<comment> \<open>Modelled from the spec: the method \<open>copy\<close> of a setting's value is not under src/; it
      copies the current value with \<open>min\<close> and \<open>max\<close> replaced.\<close>
  "number_copy n mn mx = n\<lparr>args := (args n)\<lparr>min_v := mn, max_v := mx\<rparr>\<rparr>"

subsection \<open>\<open>_eval_cmd\<close>\<close>







subsection \<open>\<open>_get_operator\<close> and \<open>_adjust_value\<close>\<close>

definition to_num :: "string \<Rightarrow> error + number" where
  "to_num string =
     (case usertypes_Float (RStr string) of
        Inl e \<Rightarrow> if is_ValueError e then Inl (WithInput e string) else Inl e
      | Inr n \<Rightarrow> Inr n)"

definition get_operator :: "cmdval \<Rightarrow> error + funcname option \<times> cmdval" where
  "get_operator value =
     (case value of
        VStr s \<Rightarrow>
          (let stripped = strip is_space s
           in if 3 \<le> length stripped then
                if take 2 stripped = ''+='' then map_sum id (\<lambda>n. (Some Add, VNum n)) (to_num (drop 2 stripped))
                else if take 2 stripped = ''-='' then map_sum id (\<lambda>n. (Some Sub, VNum n)) (to_num (drop 2 stripped))
                else Inr (None, value)
              else Inr (None, value))
      | _ \<Rightarrow> Inr (None, value))"

text \<open>
  \<open>getattr(operator, op)(current, value)\<close> for two numbers. \<open>_do_math\<close> does not return
  \<open>NotImplemented\<close> for an operand that is a number (lemma \<open>do_math_number_operand\<close>).
\<close>

definition operator_call :: "builtins \<Rightarrow> funcname \<Rightarrow> number \<Rightarrow> number \<Rightarrow> error + number" where
  "operator_call ev op a b = (case do_math ev a op [ANum b] of Some r \<Rightarrow> r | None \<Rightarrow> Inl TypeError)"

definition adjust_value :: "builtins \<Rightarrow> cfgval \<Rightarrow> funcname \<Rightarrow> cmdval \<Rightarrow> error + cmdval" where
  "adjust_value ev current op value =
     (case current of
        CNum n \<Rightarrow>
          (case (if ge_infinity (float_of (val n)) then usertypes_Float (RPlain (PyInt 0)) else Inr n) of
             Inl e \<Rightarrow> Inl e
           | Inr cur \<Rightarrow>
               (case value of
                  VNum d \<Rightarrow> map_sum id VNum (operator_call ev op cur d)
                | _ \<Rightarrow> Inl TypeError))
      | _ \<Rightarrow> Inr value)"

text \<open>\<open># Apply operator to current value\<close> in \<open>SetCmdbase.run\<close>.\<close>

definition apply_operator ::
  "builtins \<Rightarrow> (pyfloat \<Rightarrow> string) \<Rightarrow> string \<Rightarrow> cfgval \<Rightarrow> funcname option \<Rightarrow> cmdval \<Rightarrow> cmd_error + cmdval" where
  "apply_operator ev float_repr name current op value =
     (case op of
        None \<Rightarrow> Inr value
      | Some f \<Rightarrow>
          (case adjust_value ev current f value of
             Inr v \<Rightarrow> Inr v
           | Inl e \<Rightarrow>
               if \<not> is_ValueError e then Inl (Uncaught e)
               else (case (current, value) of
                       (CNum n, VNum d) \<Rightarrow>
                         (case operator_call ev f (number_copy n (Some (PyFloat NInf)) (Some (PyFloat PInf))) d of
                            Inl e' \<Rightarrow> Inl (Uncaught e')
                          | Inr invalid \<Rightarrow>
                              (case number_str float_repr invalid of
                                 Inl e' \<Rightarrow> Inl (Uncaught e')
                               | Inr shown \<Rightarrow> Inl (CmdErrorValue name shown e)))
                     | _ \<Rightarrow> Inl (Uncaught TypeError))))"

subsection \<open>\<open>ResetCmdbase.run\<close>\<close>

datatype reset_error = NotImplementedError | KeyError

text \<open>
  The loop over the names, with the settings, the messages given to \<open>self.error\<close> and
  \<open>success\<close> as its state; \<open>reset\<close> is \<open>objects.cfg.reset\<close>.
\<close>

fun reset_loop ::
  "('c \<Rightarrow> string \<Rightarrow> reset_error + 'c) \<Rightarrow> string list \<Rightarrow> 'c \<times> string list \<times> bool \<Rightarrow> 'c \<times> string list \<times> bool" where
  "reset_loop reset [] st = st"
| "reset_loop reset (name # names) (cfg, errors, success) =
     (case reset cfg name of
        Inr cfg' \<Rightarrow> reset_loop reset names (cfg', errors, success)
      | Inl NotImplementedError \<Rightarrow>
          reset_loop reset names (cfg, errors @ [''Remote settings cannot be reset: '' @ name], False)
      | Inl KeyError \<Rightarrow>
          reset_loop reset names (cfg, errors @ [''Unknown setting: '' @ name], False))"

definition reset_run ::
  "('c \<Rightarrow> string \<Rightarrow> reset_error + 'c) \<Rightarrow> 'c \<Rightarrow> string list \<Rightarrow> 'c \<times> string list \<times> cmd_error option" where
  "reset_run reset cfg NAME =
     (let (cfg', errors, success) = reset_loop reset NAME (cfg, [], True)
      in (cfg', errors, if \<not> success then Some CmdError else None))"

text \<open>The combined settings: local names with their value and default, and remote names.\<close>

record 'v settings =
  local_cfg :: "string \<rightharpoonup> 'v \<times> 'v"
  remote_cfg :: "string \<rightharpoonup> 'v"

definition cfg_reset :: "'v settings \<Rightarrow> string \<Rightarrow> reset_error + 'v settings" where
  \<comment> \<open>Modelled from the spec: \<open>CombinedSettings.reset\<close> is not under src/; it sets a local
      setting to its default, fails with a "not implemented" signal for a remote name and
      with a "not found" signal for an unknown name, local names first.\<close>
  "cfg_reset cfg name =
     (case local_cfg cfg name of
        Some (v, d) \<Rightarrow> Inr (cfg\<lparr>local_cfg := (local_cfg cfg)(name \<mapsto> (d, d))\<rparr>)
      | None \<Rightarrow> if name \<in> dom (remote_cfg cfg) then Inl NotImplementedError else Inl KeyError)"

section \<open>Properties of the commands\<close>



text \<open>
  C10. \<open>_get_operator\<close> detects no operator in a string whose stripped form has fewer than
  three characters (so not in \<open>+=\<close> or \<open>-=\<close> alone), nor in a value that is not a string:
  it returns \<open>None\<close> and the value as it was given.
\<close>

theorem get_operator_passes_short_and_nonstring:
  "(length (strip is_space s) < 3 \<longrightarrow> get_operator (VStr s) = Inr (None, VStr s))
   \<and> get_operator (VSeq xs) = Inr (None, VSeq xs)
   \<and> get_operator (VNum n) = Inr (None, VNum n)"
  by (simp add: get_operator_def Let_def)

theorem get_operator_passes_short_and_nonstring_witness:
  "length (strip is_space '' += '') < 3 \<and> get_operator (VStr '' += '') = Inr (None, VStr '' += '')"
proof -
  have len: "length (strip is_space '' += '') < 3" by code_simp
  with get_operator_passes_short_and_nonstring [of "'' += ''"] show ?thesis by blast
qed




text \<open>
  C9. The converter never returns a number: \<open>_ensure_unit_and_prefix\<close> reads \<open>num.unit\<close>,
  an attribute that no \<open>Float\<close> has, whatever the number and the unit given.
\<close>

theorem converter_call_raises: "\<exists>e. converter_call self num unt = Inl e"
  by (auto simp: converter_call_def ensure_unit_and_prefix_def number_getattr_unit_def Let_def
           split: sum.splits raw.splits)

lemma converter_call_example:
  "converter_call \<lparr>conv_unit = ''B'', conv_prefix = ''metric''\<rparr> (RPlain (PyInt 5)) (Some ''bit'')
     = Inl (AttributeError ''unit'')"
  by code_simp

lemma reset_loop_cfg_reset:
  "reset_loop cfg_reset names (cfg, errs, succ) = (cfg', errs', succ') \<Longrightarrow>
     errs' = errs @ map (\<lambda>n. if n \<in> dom (remote_cfg cfg) then ''Remote settings cannot be reset: '' @ n
                                else ''Unknown setting: '' @ n)
                        (filter (\<lambda>n. n \<notin> dom (local_cfg cfg)) names)
     \<and> (\<forall>n v d. local_cfg cfg n = Some (v, d) \<longrightarrow> local_cfg cfg' n = Some (if n \<in> set names then d else v, d))
     \<and> dom (local_cfg cfg') = dom (local_cfg cfg)
     \<and> remote_cfg cfg' = remote_cfg cfg
     \<and> succ' = (succ \<and> (\<forall>n\<in>set names. n \<in> dom (local_cfg cfg)))"
proof (induction names arbitrary: cfg errs succ)
  case Nil
  then show ?case by simp
next
  case (Cons name names)
  show ?case
  proof (cases "local_cfg cfg name")
    case None
    then have nd: "name \<notin> dom (local_cfg cfg)" by auto
    show ?thesis
    proof (cases "name \<in> dom (remote_cfg cfg)")
      case True
      with None have "cfg_reset cfg name = Inl NotImplementedError"
        by (simp add: cfg_reset_def)
      with Cons.prems have
        "reset_loop cfg_reset names (cfg, errs @ [''Remote settings cannot be reset: '' @ name], False) = (cfg', errs', succ')"
        by simp
      from Cons.IH [OF this] nd True show ?thesis by auto
    next
      case False
      with None have "cfg_reset cfg name = Inl KeyError"
        by (simp add: cfg_reset_def)
      with Cons.prems have
        "reset_loop cfg_reset names (cfg, errs @ [''Unknown setting: '' @ name], False) = (cfg', errs', succ')"
        by simp
      from Cons.IH [OF this] nd False show ?thesis by auto
    qed
  next
    case (Some vd)
    obtain v d where vd: "vd = (v, d)" by (cases vd)
    define cfg1 where "cfg1 = cfg\<lparr>local_cfg := (local_cfg cfg)(name \<mapsto> (d, d))\<rparr>"
    from Some vd have "cfg_reset cfg name = Inr cfg1"
      by (simp add: cfg_reset_def cfg1_def)
    with Cons.prems have "reset_loop cfg_reset names (cfg1, errs, succ) = (cfg', errs', succ')"
      by simp
    note ih = Cons.IH [OF this]
    have dom1: "dom (local_cfg cfg1) = dom (local_cfg cfg)"
      using Some by (auto simp: cfg1_def)
    have rem1: "remote_cfg cfg1 = remote_cfg cfg" by (simp add: cfg1_def)
    have ind: "name \<in> dom (local_cfg cfg)" using Some by auto
    have loc: "\<forall>n v' d'. local_cfg cfg n = Some (v', d') \<longrightarrow>
                 local_cfg cfg' n = Some (if n \<in> set (name # names) then d' else v', d')"
    proof (intro allI impI)
      fix n v' d' assume a: "local_cfg cfg n = Some (v', d')"
      show "local_cfg cfg' n = Some (if n \<in> set (name # names) then d' else v', d')"
      proof (cases "n = name")
        case True
        with a Some vd have "d' = d" by simp
        with True have "local_cfg cfg1 n = Some (d', d')" by (simp add: cfg1_def)
        with ih True show ?thesis by simp
      next
        case False
        with a have "local_cfg cfg1 n = Some (v', d')" by (simp add: cfg1_def)
        with ih False show ?thesis by simp
      qed
    qed
    from ih dom1 rem1 ind loc show ?thesis by simp
  qed
qed

text \<open>
  C8. \<open>reset\<close> goes through every name, also after one has failed: it reports
  "Unknown setting" for a name that is in neither registry and "Remote settings cannot be
  reset" for a remote name, each in the order of the names, leaves every local name of
  the list at its default and the other settings as they were, and raises one command
  error at the end if and only if a name has failed.
\<close>

theorem reset_run_best_effort:
  "reset_run cfg_reset cfg names = (cfg', errors, result) \<Longrightarrow>
     errors = map (\<lambda>n. if n \<in> dom (remote_cfg cfg) then ''Remote settings cannot be reset: '' @ n
                        else ''Unknown setting: '' @ n)
                  (filter (\<lambda>n. n \<notin> dom (local_cfg cfg)) names)
     \<and> (\<forall>n v d. local_cfg cfg n = Some (v, d) \<longrightarrow> local_cfg cfg' n = Some (if n \<in> set names then d else v, d))
     \<and> dom (local_cfg cfg') = dom (local_cfg cfg)
     \<and> remote_cfg cfg' = remote_cfg cfg
     \<and> result = (if \<exists>n\<in>set names. n \<notin> dom (local_cfg cfg) then Some CmdError else None)"
proof -
  assume a: "reset_run cfg_reset cfg names = (cfg', errors, result)"
  obtain c e s where l: "reset_loop cfg_reset names (cfg, [], True) = (c, e, s)"
    by (cases "reset_loop cfg_reset names (cfg, [], True)") auto
  with a have eqs: "c = cfg'" "e = errors" "result = (if \<not> s then Some CmdError else None)"
    by (simp_all add: reset_run_def)
  from reset_loop_cfg_reset [OF l] eqs show ?thesis by auto
qed

theorem reset_run_best_effort_witness:
  "\<exists>cfg'. reset_run cfg_reset
            \<lparr>local_cfg = [''a.valid'' \<mapsto> (1::nat, 10), ''c.valid'' \<mapsto> (2, 20), ''d.other'' \<mapsto> (3, 30)],
             remote_cfg = [''srv.x'' \<mapsto> 5]\<rparr>
            [''a.valid'', ''b.unknown'', ''srv.x'', ''c.valid'']
          = (cfg', [''Unknown setting: b.unknown'', ''Remote settings cannot be reset: srv.x''], Some CmdError)
        \<and> local_cfg cfg' ''a.valid'' = Some (10, 10)
        \<and> local_cfg cfg' ''c.valid'' = Some (20, 20)
        \<and> local_cfg cfg' ''d.other'' = Some (3, 30)"
proof -
  let ?cfg = "\<lparr>local_cfg = [''a.valid'' \<mapsto> (1::nat, 10), ''c.valid'' \<mapsto> (2, 20), ''d.other'' \<mapsto> (3, 30)],
               remote_cfg = [''srv.x'' \<mapsto> 5]\<rparr>"
  let ?names = "[''a.valid'', ''b.unknown'', ''srv.x'', ''c.valid'']"
  obtain c e r where run: "reset_run cfg_reset ?cfg ?names = (c, e, r)"
    by (cases "reset_run cfg_reset ?cfg ?names") auto
  from reset_run_best_effort [OF run]
  have "e = [''Unknown setting: b.unknown'', ''Remote settings cannot be reset: srv.x'']"
    and "r = Some CmdError"
    and "local_cfg c ''a.valid'' = Some (10, 10)"
    and "local_cfg c ''c.valid'' = Some (20, 20)"
    and "local_cfg c ''d.other'' = Some (3, 30)"
    by simp_all
  with run show ?thesis by simp
qed


section \<open>Parsing numbers\<close>















section \<open>Properties of numbers\<close>





section \<open>Printing numbers\<close>












lemma round_half_even_of_int: "round_half_even (of_int m) = m"
  by (simp add: round_half_even_def)

















section \<open>Properties of the arithmetic\<close>

lemma do_math_nonflip:
  assumes "ge_infinity (float_of (val self)) \<or> \<not> (cls self = IntCls \<and> binary f \<and> as \<noteq> [] \<and> is_float_arg (hd as))"
  shows "do_math ev self f as =
           Some (rewrap self (if ge_infinity (float_of (val self)) then Res (PyFloat PInf)
                              else ev (parent_type self) f (val self) (map arg_num as)))"
  using assms
  by (subst do_math.simps) (auto simp: py_call_def parent_type_def split: number_cls.splits)

lemma do_math_flip_number:
  assumes "\<not> ge_infinity (float_of (val self))" and "cls self = IntCls" and "binary f" and "cls other = FloatCls"
  shows "do_math ev self f (ANum other # rest) =
           Some (case rewrap other (if ge_infinity (float_of (val other)) then Res (PyFloat PInf)
                                    else ev TFloat f (val other) [val self]) of
                   Inl e \<Rightarrow> Inl e
                 | Inr result \<Rightarrow> rewrap_inst self result)"
proof -
  have inner: "do_math ev other f [ANum self] =
           Some (rewrap other (if ge_infinity (float_of (val other)) then Res (PyFloat PInf)
                               else ev TFloat f (val other) [val self]))"
    using do_math_nonflip [of other f "[ANum self]" ev] assms(2,4)
    by (simp add: parent_type_def)
  have pc: "py_call ev (parent_type self) f (val self) (ANum other # rest) = None"
    using assms by (simp add: py_call_def parent_type_def)
  show ?thesis
    using assms(1) by (subst do_math.simps) (simp add: pc inner split: sum.splits)
qed

lemma do_math_number_operand: "do_math ev a f [ANum b] \<noteq> None"
proof (cases "ge_infinity (float_of (val a)) \<or> \<not> (cls a = IntCls \<and> binary f \<and> is_float_arg (ANum b))")
  case True
  then show ?thesis using do_math_nonflip [of a f "[ANum b]" ev] by auto
next
  case False
  then show ?thesis using do_math_flip_number [of a f b ev "[]"] by auto
qed

lemma number_args_eta:
  "\<lparr>unit = unit a, prefix = prefix a, hide_unit = hide_unit a, min_v = min_v a, max_v = max_v a,
     precise = precise a\<rparr> = (a :: number_args)"
  by simp

lemma number_new_plain_args:
  "number_new c (RPlain v) (kwargs_of_args a) =
     (case (if c = IntCls then py_round v else Inr v) of
        Inl e \<Rightarrow> Inl e
      | Inr v' \<Rightarrow> finish c v' (unit a) (prefix a) (hide_unit a) (min_v a) (max_v a) (precise a))"
  by (auto simp: number_new_def kwargs_of_args_def parse_strings_def scale_def split: sum.splits)

lemma number_new_inst_args:
  assumes "cls r = c"
  shows "number_new c (RInst r) (kwargs_of_args a) =
     (case (if c = IntCls then py_round (PyFloat (float_of (val r))) else Inr (PyFloat (float_of (val r)))) of
        Inl e \<Rightarrow> Inl e
      | Inr v' \<Rightarrow> finish c v' (if unit a \<noteq> None then unit a else unit (args r)) (prefix a) (hide_unit a)
                    (min_v a) (max_v a) (precise a))"
  using assms
  by (auto simp: number_new_def kwargs_of_args_def parse_strings_def scale_def split: sum.splits)

lemma rewrap_int:
  assumes "prefix (args self) = ''binary'' \<or> prefix (args self) = ''metric''"
    and "float_of v = Fin (of_int i)"
  shows "rewrap self (Res v) =
           (case check_bounds (PyInt i) (min_v (args self)) (max_v (args self)) of
              Some e \<Rightarrow> Inl e
            | None \<Rightarrow> Inr \<lparr>cls = IntCls, val = PyInt i, args = args self\<rparr>)"
proof (cases v)
  case (PyInt j)
  with assms(2) have "j = i" by simp
  with PyInt assms(1) show ?thesis
    by (auto simp: rewrap_def number_new_plain_args finish_def split: option.splits)
next
  case (PyFloat x)
  with assms(2) have x: "x = Fin (of_int i)" by simp
  with PyFloat assms(1) show ?thesis
    by (auto simp: rewrap_def number_new_plain_args finish_def round_half_even_of_int split: option.splits)
qed

lemma rewrap_float:
  assumes "prefix (args self) = ''binary'' \<or> prefix (args self) = ''metric''"
    and "\<forall>i. float_of v \<noteq> Fin (of_int i)" and "float_of v \<noteq> NInf"
  shows "rewrap self (Res v) =
           (case check_bounds v (min_v (args self)) (max_v (args self)) of
              Some e \<Rightarrow> Inl e
            | None \<Rightarrow> Inr \<lparr>cls = FloatCls, val = v, args = args self\<rparr>)"
proof (cases v)
  case (PyInt j)
  with assms(2) show ?thesis by simp
next
  case (PyFloat x)
  show ?thesis
  proof (cases x)
    case (Fin q)
    with PyFloat assms(2) have "of_int \<lfloor>q\<rfloor> \<noteq> q" by (metis float_of.simps(2))
    with PyFloat Fin assms(1) show ?thesis
      by (auto simp: rewrap_def number_new_plain_args finish_def split: option.splits)
  next
    case PInf
    with PyFloat assms(1) show ?thesis
      by (auto simp: rewrap_def number_new_plain_args finish_def split: option.splits)
  next
    case NInf
    with PyFloat assms(3) show ?thesis by simp
  next
    case NaN
    with PyFloat assms(1) show ?thesis
      by (auto simp: rewrap_def number_new_plain_args finish_def split: option.splits)
  qed
qed

text \<open>
  C4, amended. For every operator of a Number, the number that the method of the parent type
  returns (plus infinity, whatever the operator, when the left operand is plus infinity) is
  wrapped again with the configuration of the left operand: out of the bounds \<open>min\<close> and
  \<open>max\<close> of the left operand the operation fails with the error of that bound; within
  them the result is a new Number with the unit, prefix, hide_unit, min, max and precise
  of the left operand, an \<open>Int\<close> when the returned number is an int or a finite float
  with an integer value, a \<open>Float\<close> otherwise. This is stated for the calls in which the
  method of the parent type answers (all but an \<open>Int\<close> on the left of a binary operator
  with a float on the right) and for a returned number other than minus infinity.
\<close>

theorem do_math_wraps_result:
  assumes "prefix (args self) = ''binary'' \<or> prefix (args self) = ''metric''"
    and "ge_infinity (float_of (val self)) \<or> \<not> (cls self = IntCls \<and> binary f \<and> as \<noteq> [] \<and> is_float_arg (hd as))"
    and "(if ge_infinity (float_of (val self)) then Res (PyFloat PInf)
          else ev (parent_type self) f (val self) (map arg_num as)) = Res v"
  shows "(\<forall>i. float_of v = Fin (of_int i) \<longrightarrow>
            do_math ev self f as =
              Some (case check_bounds (PyInt i) (min_v (args self)) (max_v (args self)) of
                      Some e \<Rightarrow> Inl e
                    | None \<Rightarrow> Inr \<lparr>cls = IntCls, val = PyInt i, args = args self\<rparr>))
       \<and> ((\<forall>i. float_of v \<noteq> Fin (of_int i)) \<and> float_of v \<noteq> NInf \<longrightarrow>
            do_math ev self f as =
              Some (case check_bounds v (min_v (args self)) (max_v (args self)) of
                      Some e \<Rightarrow> Inl e
                    | None \<Rightarrow> Inr \<lparr>cls = FloatCls, val = v, args = args self\<rparr>))
       \<and> (\<forall>e. check_bounds v (min_v (args self)) (max_v (args self)) = Some e \<longrightarrow> float_of v \<noteq> NInf \<longrightarrow>
             do_math ev self f as = Some (Inl e) \<and> (e = TooSmall (the (min_v (args self))) \<or> e = TooBig (the (max_v (args self)))))"
proof -
  have dm: "do_math ev self f as = Some (rewrap self (Res v))"
    using do_math_nonflip [OF assms(2), of ev] assms(3) by simp
  have cb: "check_bounds (PyInt i) mn mx = check_bounds v mn mx" if "float_of v = Fin (of_int i)" for i mn mx
    using that by (simp add: check_bounds_def num_less_def)
  have a: "\<forall>i. float_of v = Fin (of_int i) \<longrightarrow>
            do_math ev self f as =
              Some (case check_bounds (PyInt i) (min_v (args self)) (max_v (args self)) of
                      Some e \<Rightarrow> Inl e
                    | None \<Rightarrow> Inr \<lparr>cls = IntCls, val = PyInt i, args = args self\<rparr>)"
    using dm rewrap_int [OF assms(1)] by simp
  have b: "(\<forall>i. float_of v \<noteq> Fin (of_int i)) \<and> float_of v \<noteq> NInf \<longrightarrow>
            do_math ev self f as =
              Some (case check_bounds v (min_v (args self)) (max_v (args self)) of
                      Some e \<Rightarrow> Inl e
                    | None \<Rightarrow> Inr \<lparr>cls = FloatCls, val = v, args = args self\<rparr>)"
    using dm rewrap_float [OF assms(1)] by simp
  have c: "\<forall>e. check_bounds v (min_v (args self)) (max_v (args self)) = Some e \<longrightarrow> float_of v \<noteq> NInf \<longrightarrow>
             do_math ev self f as = Some (Inl e) \<and> (e = TooSmall (the (min_v (args self))) \<or> e = TooBig (the (max_v (args self))))"
  proof (intro allI impI)
    fix e assume e: "check_bounds v (min_v (args self)) (max_v (args self)) = Some e" and n: "float_of v \<noteq> NInf"
    have shape: "e = TooSmall (the (min_v (args self))) \<or> e = TooBig (the (max_v (args self)))"
      using e by (auto simp: check_bounds_def split: if_splits)
    show "do_math ev self f as = Some (Inl e) \<and> (e = TooSmall (the (min_v (args self))) \<or> e = TooBig (the (max_v (args self))))"
    proof (cases "\<exists>i. float_of v = Fin (of_int i)")
      case True
      then obtain i where i: "float_of v = Fin (of_int i)" by blast
      then have "check_bounds (PyInt i) (min_v (args self)) (max_v (args self)) = Some e"
        using e cb by simp
      with a i shape show ?thesis by simp
    next
      case False
      with b n e shape show ?thesis by simp
    qed
  qed
  from a b c show ?thesis by blast
qed


theorem do_math_wraps_result_witness:
  "Float (RPlain (PyFloat (Fin 2))) no_kwargs
     = Inr \<lparr>cls = FloatCls, val = PyFloat (Fin 2),
            args = \<lparr>unit = None, prefix = ''metric'', hide_unit = False, min_v = None,
                    max_v = None, precise = False\<rparr>\<rparr>
   \<and> do_math (py_arith (\<lambda>t f x ys. NonNumber))
     \<lparr>cls = FloatCls, val = PyFloat (Fin 2),
      args = \<lparr>unit = None, prefix = ''metric'', hide_unit = False, min_v = None,
              max_v = None, precise = False\<rparr>\<rparr>
     Add [ANum \<lparr>cls = FloatCls, val = PyFloat (Fin 3),
               args = \<lparr>unit = None, prefix = ''metric'', hide_unit = False, min_v = None,
                       max_v = None, precise = False\<rparr>\<rparr>]
     = Some (Inr \<lparr>cls = IntCls, val = PyInt 5,
                  args = \<lparr>unit = None, prefix = ''metric'', hide_unit = False, min_v = None,
                          max_v = None, precise = False\<rparr>\<rparr>)
   \<and> number_str (\<lambda>x. '''')
        \<lparr>cls = IntCls, val = PyInt 5,
         args = \<lparr>unit = None, prefix = ''metric'', hide_unit = False, min_v = None,
                 max_v = None, precise = False\<rparr>\<rparr> = Inr ''5''"
proof -
  let ?a = "\<lparr>unit = None, prefix = ''metric'', hide_unit = False, min_v = None,
              max_v = None, precise = False\<rparr>"
  let ?two = "\<lparr>cls = FloatCls, val = PyFloat (Fin 2), args = ?a\<rparr>"
  let ?three = "\<lparr>cls = FloatCls, val = PyFloat (Fin 3), args = ?a\<rparr>"
  let ?ev = "py_arith (\<lambda>t f x ys. NonNumber)"
  have c: "Float (RPlain (PyFloat (Fin 2))) no_kwargs = Inr ?two" by code_simp
  have h1: "prefix (args ?two) = ''binary'' \<or> prefix (args ?two) = ''metric''" by simp
  have h2: "ge_infinity (float_of (val ?two)) \<or>
            \<not> (cls ?two = IntCls \<and> binary Add \<and> [ANum ?three] \<noteq> [] \<and> is_float_arg (hd [ANum ?three]))"
    by simp
  have h3: "(if ge_infinity (float_of (val ?two)) then Res (PyFloat PInf)
             else ?ev (parent_type ?two) Add (val ?two) (map arg_num [ANum ?three])) = Res (PyFloat (Fin 5))"
    by code_simp
  have h4: "float_of (PyFloat (Fin 5)) = Fin (of_int 5)" by simp
  have h5: "check_bounds (PyInt 5) (min_v (args ?two)) (max_v (args ?two)) = None"
    by (simp add: check_bounds_def)
  note t = do_math_wraps_result [where self = ?two and f = Add and as = "[ANum ?three]" and ev = ?ev
      and v = "PyFloat (Fin 5)", OF h1 h2 h3]
  then have "float_of (PyFloat (Fin 5)) = Fin (of_int 5) \<longrightarrow>
      do_math ?ev ?two Add [ANum ?three] =
        Some (case check_bounds (PyInt 5) (min_v (args ?two)) (max_v (args ?two)) of
                Some e \<Rightarrow> Inl e
              | None \<Rightarrow> Inr \<lparr>cls = IntCls, val = PyInt 5, args = args ?two\<rparr>)"
    by blast
  with h4 h5 have d: "do_math ?ev ?two Add [ANum ?three] = Some (Inr \<lparr>cls = IntCls, val = PyInt 5, args = ?a\<rparr>)"
    by simp
  have s: "number_str (\<lambda>x. '''') \<lparr>cls = IntCls, val = PyInt 5, args = ?a\<rparr> = Inr ''5''" by code_simp
  from c d s show ?thesis by blast
qed

text \<open>
  C4, as the claim states it, fails: the sum of a Number at its maximum and 10 is no Number
  but the error of the bound; minus infinity plus one raises an overflow error; and an
  \<open>Int\<close> without unit plus a \<open>Float\<close> in bytes has the unit of the right operand.
\<close>

theorem do_math_counterexample:
  "do_math (py_arith (\<lambda>t f x ys. NonNumber))
     \<lparr>cls = IntCls, val = PyInt 3,
      args = \<lparr>unit = None, prefix = ''metric'', hide_unit = False, min_v = Some (PyInt 0),
              max_v = Some (PyInt 3), precise = False\<rparr>\<rparr>
     Add [APlain (PyInt 10)] = Some (Inl (TooBig (PyInt 3)))
   \<and> do_math (py_arith (\<lambda>t f x ys. NonNumber))
     \<lparr>cls = FloatCls, val = PyFloat NInf,
      args = \<lparr>unit = None, prefix = ''metric'', hide_unit = False, min_v = None,
              max_v = None, precise = False\<rparr>\<rparr>
     Add [APlain (PyInt 1)] = Some (Inl OverflowError)
   \<and> do_math (py_arith (\<lambda>t f x ys. NonNumber))
     \<lparr>cls = IntCls, val = PyInt 50,
      args = \<lparr>unit = None, prefix = ''metric'', hide_unit = False, min_v = None,
              max_v = None, precise = False\<rparr>\<rparr>
     Add [ANum \<lparr>cls = FloatCls, val = PyFloat (Fin 100000),
               args = \<lparr>unit = Some ''B'', prefix = ''metric'', hide_unit = False, min_v = None,
                       max_v = None, precise = False\<rparr>\<rparr>]
     = Some (Inr \<lparr>cls = IntCls, val = PyInt 100050,
                  args = \<lparr>unit = Some ''B'', prefix = ''metric'', hide_unit = False, min_v = None,
                          max_v = None, precise = False\<rparr>\<rparr>)"
  by code_simp


section \<open>Properties of the \<open>set\<close> command\<close>

lemma check_bounds_float_of:
  "float_of v = float_of w \<Longrightarrow> check_bounds v mn mx = check_bounds w mn mx"
  by (simp add: check_bounds_def num_less_def)

lemma rewrap_finite:
  assumes "prefix (args n) = ''binary'' \<or> prefix (args n) = ''metric''"
  shows "rewrap n (Res (PyFloat (Fin s))) =
     (case check_bounds (PyFloat (Fin s)) (min_v (args n)) (max_v (args n)) of
        Some e \<Rightarrow> Inl e
      | None \<Rightarrow> Inr \<lparr>cls = (if of_int \<lfloor>s\<rfloor> = s then IntCls else FloatCls),
                     val = (if of_int \<lfloor>s\<rfloor> = s then PyInt \<lfloor>s\<rfloor> else PyFloat (Fin s)),
                     args = args n\<rparr>)"
proof (cases "of_int \<lfloor>s\<rfloor> = s")
  case True
  have f: "float_of (PyFloat (Fin s)) = Fin (of_int \<lfloor>s\<rfloor>)" by (simp only: float_of.simps True)
  have "check_bounds (PyInt \<lfloor>s\<rfloor>) (min_v (args n)) (max_v (args n))
        = check_bounds (PyFloat (Fin s)) (min_v (args n)) (max_v (args n))"
    by (rule check_bounds_float_of) (simp only: float_of.simps True)
  with rewrap_int [OF assms f] True show ?thesis by simp
next
  case False
  then have "\<forall>i. float_of (PyFloat (Fin s)) \<noteq> Fin (of_int i)" by auto
  from rewrap_float [OF assms this] False show ?thesis by simp
qed

lemma rewrap_inst_finite:
  assumes "prefix (args n) = ''binary'' \<or> prefix (args n) = ''metric''"
    and "r = \<lparr>cls = (if of_int \<lfloor>s\<rfloor> = s then IntCls else FloatCls),
              val = (if of_int \<lfloor>s\<rfloor> = s then PyInt \<lfloor>s\<rfloor> else PyFloat (Fin s)),
              args = ad\<rparr>"
  shows "rewrap_inst n r =
     (case check_bounds (PyFloat (Fin s)) (min_v (args n)) (max_v (args n)) of
        Some e \<Rightarrow> Inl e
      | None \<Rightarrow> Inr \<lparr>cls = (if of_int \<lfloor>s\<rfloor> = s then IntCls else FloatCls),
                     val = (if of_int \<lfloor>s\<rfloor> = s then PyInt \<lfloor>s\<rfloor> else PyFloat (Fin s)),
                     args = (args n)\<lparr>unit := (if unit (args n) \<noteq> None then unit (args n) else unit ad)\<rparr>\<rparr>)"
proof (cases "of_int \<lfloor>s\<rfloor> = s")
  case True
  then have r: "cls r = IntCls" "val r = PyInt \<lfloor>s\<rfloor>" "args r = ad" using assms(2) by simp_all
  have cb: "check_bounds (PyInt \<lfloor>s\<rfloor>) (min_v (args n)) (max_v (args n))
        = check_bounds (PyFloat (Fin s)) (min_v (args n)) (max_v (args n))"
    by (rule check_bounds_float_of) (simp only: float_of.simps True)
  show ?thesis
    using True assms(1) r cb
    by (auto simp: rewrap_inst_def number_new_inst_args finish_def round_half_even_of_int
             split: option.splits)
next
  case False
  then have r: "cls r = FloatCls" "val r = PyFloat (Fin s)" "args r = ad" using assms(2) by simp_all
  show ?thesis
    using False assms(1) r
    by (auto simp: rewrap_inst_def number_new_inst_args finish_def split: option.splits)
qed

lemma add_number:
  assumes valid: "prefix (args n) = ''binary'' \<or> prefix (args n) = ''metric''"
    and shape: "cls n = IntCls \<and> val n = PyInt i \<and> a = of_int i \<or> cls n = FloatCls \<and> val n = PyFloat (Fin a)"
    and d: "cls d = FloatCls" "val d = PyFloat (Fin b)"
      "prefix (args d) = ''binary'' \<or> prefix (args d) = ''metric''"
      "min_v (args d) = None" "max_v (args d) = None"
  shows "operator_call (py_arith ev) Add n d =
     (case check_bounds (PyFloat (Fin (a + b))) (min_v (args n)) (max_v (args n)) of
        Some e \<Rightarrow> Inl e
      | None \<Rightarrow> Inr \<lparr>cls = (if of_int \<lfloor>a + b\<rfloor> = a + b then IntCls else FloatCls),
                     val = (if of_int \<lfloor>a + b\<rfloor> = a + b then PyInt \<lfloor>a + b\<rfloor> else PyFloat (Fin (a + b))),
                     args = (args n)\<lparr>unit := (if cls n = IntCls \<and> unit (args n) = None then unit (args d)
                                               else unit (args n))\<rparr>\<rparr>)"
proof -
  from shape show ?thesis
  proof
    assume s: "cls n = IntCls \<and> val n = PyInt i \<and> a = of_int i"
    have ninf: "\<not> ge_infinity (float_of (val n))" using s by (simp add: ge_infinity_def)
    have dninf: "\<not> ge_infinity (float_of (val d))" using d(2) by (simp add: ge_infinity_def)
    have bin: "binary Add" by (simp add: binary_def)
    have inner: "rewrap d (Res (PyFloat (Fin (b + a)))) =
        Inr \<lparr>cls = (if of_int \<lfloor>b + a\<rfloor> = b + a then IntCls else FloatCls),
             val = (if of_int \<lfloor>b + a\<rfloor> = b + a then PyInt \<lfloor>b + a\<rfloor> else PyFloat (Fin (b + a))),
             args = args d\<rparr>"
      using rewrap_finite [OF d(3), of "b + a"] d(4,5) by (simp add: check_bounds_def)
    have "operator_call (py_arith ev) Add n d =
            (case rewrap d (Res (PyFloat (Fin (b + a)))) of Inl e \<Rightarrow> Inl e | Inr r \<Rightarrow> rewrap_inst n r)"
      using do_math_flip_number [OF ninf conjunct1 [OF s] bin d(1), of "py_arith ev" "[]"] dninf s d(2)
      by (simp add: operator_call_def)
    also have "\<dots> = rewrap_inst n \<lparr>cls = (if of_int \<lfloor>b + a\<rfloor> = b + a then IntCls else FloatCls),
             val = (if of_int \<lfloor>b + a\<rfloor> = b + a then PyInt \<lfloor>b + a\<rfloor> else PyFloat (Fin (b + a))),
             args = args d\<rparr>"
      by (simp add: inner)
    also have "\<dots> = (case check_bounds (PyFloat (Fin (b + a))) (min_v (args n)) (max_v (args n)) of
        Some e \<Rightarrow> Inl e
      | None \<Rightarrow> Inr \<lparr>cls = (if of_int \<lfloor>b + a\<rfloor> = b + a then IntCls else FloatCls),
                     val = (if of_int \<lfloor>b + a\<rfloor> = b + a then PyInt \<lfloor>b + a\<rfloor> else PyFloat (Fin (b + a))),
                     args = (args n)\<lparr>unit := (if unit (args n) \<noteq> None then unit (args n) else unit (args d))\<rparr>\<rparr>)"
      by (rule rewrap_inst_finite [OF valid]) simp
    finally show ?thesis using s by (auto simp: add.commute split: option.splits)
  next
    assume s: "cls n = FloatCls \<and> val n = PyFloat (Fin a)"
    have nf: "ge_infinity (float_of (val n)) \<or>
              \<not> (cls n = IntCls \<and> binary Add \<and> [ANum d] \<noteq> [] \<and> is_float_arg (hd [ANum d]))"
      using s by simp
    have "operator_call (py_arith ev) Add n d = rewrap n (Res (PyFloat (Fin (a + b))))"
      using do_math_nonflip [OF nf, of "py_arith ev"] s d(2)
      by (simp add: operator_call_def ge_infinity_def parent_type_def)
    with rewrap_finite [OF valid, of "a + b"] s show ?thesis
      by (auto split: option.splits)
  qed
qed


lemma get_operator_100kB:
  "get_operator (VStr ''+=100kB'') =
     Inr (Some Add, VNum \<lparr>cls = FloatCls, val = PyFloat (Fin 100000),
                           args = \<lparr>unit = Some ''B'', prefix = ''metric'', hide_unit = False,
                                   min_v = None, max_v = None, precise = False\<rparr>\<rparr>)"
  by code_simp

lemma get_operator_minus_1:
  "get_operator (VStr ''-=1'') =
     Inr (Some Sub, VNum \<lparr>cls = FloatCls, val = PyFloat (Fin 1),
                           args = \<lparr>unit = None, prefix = ''metric'', hide_unit = False,
                                   min_v = None, max_v = None, precise = False\<rparr>\<rparr>)"
  by code_simp


lemma adjust_value_number:
  assumes "float_of (val n) \<noteq> PInf"
  shows "adjust_value ev (CNum n) op (VNum d) = map_sum id VNum (operator_call ev op n d)"
  using assms by (simp add: adjust_value_def ge_infinity_def)

text \<open>
  C5, as the claim states it, fails in its second part: \<open>_get_operator\<close> strips the operator
  of "-=1" and parses the rest for every setting, and for a setting that is not a number
  \<open>_adjust_value\<close> returns that parsed number 1, not the literal "-=1".
\<close>

theorem set_operator_non_numeric_counterexample:
  "get_operator (VStr ''-=1'') =
     Inr (Some Sub, VNum \<lparr>cls = FloatCls, val = PyFloat (Fin 1),
                           args = \<lparr>unit = None, prefix = ''metric'', hide_unit = False,
                                   min_v = None, max_v = None, precise = False\<rparr>\<rparr>)
   \<and> apply_operator (py_arith (\<lambda>t f x ys. NonNumber)) (\<lambda>x. '''') ''srv.url'' (CText ''localhost'') (Some Sub)
        (VNum \<lparr>cls = FloatCls, val = PyFloat (Fin 1),
               args = \<lparr>unit = None, prefix = ''metric'', hide_unit = False,
                       min_v = None, max_v = None, precise = False\<rparr>\<rparr>)
     = Inr (VNum \<lparr>cls = FloatCls, val = PyFloat (Fin 1),
                  args = \<lparr>unit = None, prefix = ''metric'', hide_unit = False,
                          min_v = None, max_v = None, precise = False\<rparr>\<rparr>)
   \<and> VNum \<lparr>cls = FloatCls, val = PyFloat (Fin 1),
            args = \<lparr>unit = None, prefix = ''metric'', hide_unit = False,
                    min_v = None, max_v = None, precise = False\<rparr>\<rparr> \<noteq> VStr ''-=1''"
  by (simp add: get_operator_minus_1 apply_operator_def adjust_value_def)

text \<open>
  C5, amended. The value "+=100kB" is parsed as the operator of addition and the number
  100000 in bytes with the metric prefix, and applied to a numeric setting whose current
  value is 50 it gives 100050 (when the bounds of the setting allow it). For a setting that
  is not a number no arithmetic is applied: the value goes on as \<open>_get_operator\<close> has
  returned it, which for "-=1" is the parsed number 1 with the operator stripped.
\<close>

theorem set_operator_detection:
  "get_operator (VStr ''+=100kB'') =
     Inr (Some Add, VNum \<lparr>cls = FloatCls, val = PyFloat (Fin 100000),
                           args = \<lparr>unit = Some ''B'', prefix = ''metric'', hide_unit = False,
                                   min_v = None, max_v = None, precise = False\<rparr>\<rparr>)
   \<and> ((cls n = IntCls \<and> val n = PyInt 50 \<or> cls n = FloatCls \<and> val n = PyFloat (Fin 50))
        \<and> (prefix (args n) = ''binary'' \<or> prefix (args n) = ''metric'')
        \<and> check_bounds (PyInt 100050) (min_v (args n)) (max_v (args n)) = None \<longrightarrow>
        (\<exists>r. apply_operator (py_arith ev) float_repr name (CNum n) (Some Add)
                (VNum \<lparr>cls = FloatCls, val = PyFloat (Fin 100000),
                       args = \<lparr>unit = Some ''B'', prefix = ''metric'', hide_unit = False,
                               min_v = None, max_v = None, precise = False\<rparr>\<rparr>) = Inr (VNum r)
              \<and> cls r = IntCls \<and> val r = PyInt 100050))
   \<and> get_operator (VStr ''-=1'') =
       Inr (Some Sub, VNum \<lparr>cls = FloatCls, val = PyFloat (Fin 1),
                             args = \<lparr>unit = None, prefix = ''metric'', hide_unit = False,
                                     min_v = None, max_v = None, precise = False\<rparr>\<rparr>)
   \<and> apply_operator ev' float_repr name (CText s) op value = Inr value
   \<and> apply_operator ev' float_repr name (CSeq xs) op value = Inr value"
proof -
  let ?d = "\<lparr>cls = FloatCls, val = PyFloat (Fin 100000),
             args = \<lparr>unit = Some ''B'', prefix = ''metric'', hide_unit = False,
                     min_v = None, max_v = None, precise = False\<rparr>\<rparr>"
  have b: "(cls n = IntCls \<and> val n = PyInt 50 \<or> cls n = FloatCls \<and> val n = PyFloat (Fin 50))
        \<and> (prefix (args n) = ''binary'' \<or> prefix (args n) = ''metric'')
        \<and> check_bounds (PyInt 100050) (min_v (args n)) (max_v (args n)) = None \<longrightarrow>
        (\<exists>r. apply_operator (py_arith ev) float_repr name (CNum n) (Some Add) (VNum ?d) = Inr (VNum r)
              \<and> cls r = IntCls \<and> val r = PyInt 100050)"
  proof (intro impI; elim conjE)
    assume shape: "cls n = IntCls \<and> val n = PyInt 50 \<or> cls n = FloatCls \<and> val n = PyFloat (Fin 50)"
      and valid: "prefix (args n) = ''binary'' \<or> prefix (args n) = ''metric''"
      and cb: "check_bounds (PyInt 100050) (min_v (args n)) (max_v (args n)) = None"
    from shape have sh: "cls n = IntCls \<and> val n = PyInt 50 \<and> (50::rat) = of_int 50
                         \<or> cls n = FloatCls \<and> val n = PyFloat (Fin 50)" by simp
    from shape have fin: "float_of (val n) \<noteq> PInf" by auto
    have cb': "check_bounds (PyFloat (Fin (50 + 100000))) (min_v (args n)) (max_v (args n)) = None"
      using cb check_bounds_float_of [of "PyFloat (Fin (50 + 100000))" "PyInt 100050"] by simp
    have fl: "of_int \<lfloor>50 + 100000 :: rat\<rfloor> = (50 + 100000 :: rat)" "\<lfloor>50 + 100000 :: rat\<rfloor> = 100050"
      by simp_all
    have "operator_call (py_arith ev) Add n ?d =
        Inr \<lparr>cls = IntCls, val = PyInt 100050,
             args = (args n)\<lparr>unit := (if cls n = IntCls \<and> unit (args n) = None then unit (args ?d)
                                        else unit (args n))\<rparr>\<rparr>"
      using add_number [OF valid sh, of ?d 100000 ev] cb' fl by simp
    then show "\<exists>r. apply_operator (py_arith ev) float_repr name (CNum n) (Some Add) (VNum ?d) = Inr (VNum r)
              \<and> cls r = IntCls \<and> val r = PyInt 100050"
      using adjust_value_number [OF fin, of "py_arith ev" Add ?d]
      by (simp add: apply_operator_def)
  qed
  have c: "apply_operator ev' float_repr name (CText s) op value = Inr value"
    by (cases op) (simp_all add: apply_operator_def adjust_value_def)
  have d: "apply_operator ev' float_repr name (CSeq xs) op value = Inr value"
    by (cases op) (simp_all add: apply_operator_def adjust_value_def)
  from get_operator_100kB get_operator_minus_1 b c d show ?thesis by blast
qed


theorem set_operator_detection_witness:
  "\<exists>r. apply_operator (py_arith (\<lambda>t f x ys. NonNumber)) (\<lambda>x. '''') ''tui.log.height''
          (CNum \<lparr>cls = IntCls, val = PyInt 50,
                 args = \<lparr>unit = None, prefix = ''metric'', hide_unit = False,
                         min_v = Some (PyInt 1), max_v = None, precise = False\<rparr>\<rparr>)
          (Some Add)
          (VNum \<lparr>cls = FloatCls, val = PyFloat (Fin 100000),
                 args = \<lparr>unit = Some ''B'', prefix = ''metric'', hide_unit = False,
                         min_v = None, max_v = None, precise = False\<rparr>\<rparr>) = Inr (VNum r)
        \<and> cls r = IntCls \<and> val r = PyInt 100050"
proof -
  let ?n = "\<lparr>cls = IntCls, val = PyInt 50,
             args = \<lparr>unit = None, prefix = ''metric'', hide_unit = False,
                     min_v = Some (PyInt 1), max_v = None, precise = False\<rparr>\<rparr>"
  have h: "(cls ?n = IntCls \<and> val ?n = PyInt 50 \<or> cls ?n = FloatCls \<and> val ?n = PyFloat (Fin 50))
        \<and> (prefix (args ?n) = ''binary'' \<or> prefix (args ?n) = ''metric'')
        \<and> check_bounds (PyInt 100050) (min_v (args ?n)) (max_v (args ?n)) = None"
    by (simp add: check_bounds_def num_less_def)
  from set_operator_detection [where n = ?n and ev = "\<lambda>t f x ys. NonNumber" and float_repr = "\<lambda>x. ''''"
      and name = "''tui.log.height''"] h
  show ?thesis by blast
qed





section \<open>Round trips\<close>






lemma number_new_plain:
  assumes "kw_convert_to kw = None"
  shows "number_new c (RPlain v) kw =
     (case (if c = IntCls then py_round v else Inr v) of
        Inl e \<Rightarrow> Inl e
      | Inr v' \<Rightarrow> finish c v' (kw_unit kw)
                  (case kw_prefix kw of None \<Rightarrow> ''metric'' | Some q \<Rightarrow> q)
                  (case kw_hide_unit kw of None \<Rightarrow> False | Some h \<Rightarrow> h)
                  (kw_min kw) (kw_max kw) (kw_precise kw))"
  using assms by (simp add: number_new_def parse_strings_def scale_def split: sum.splits)

lemma py_round_shape: "py_round v = Inr w \<Longrightarrow> \<exists>j. w = PyInt j"
  by (cases v rule: py_round.cases) auto

lemma finish_Inr:
  assumes "finish c w u prfx h mn mx pr = Inr n"
  shows "cls n = c" and "args n = \<lparr>unit = u, prefix = prfx, hide_unit = h, min_v = mn, max_v = mx, precise = pr\<rparr>"
    and "prfx = ''binary'' \<or> prfx = ''metric''" and "check_bounds w mn mx = None"
    and "parent_value c w = Inr (val n)"
  using assms by (auto simp: finish_def split: option.splits sum.splits if_splits)

lemma parent_value_float_of:
  "parent_value c w = Inr x \<Longrightarrow> c = IntCls \<longrightarrow> (\<exists>j. w = PyInt j) \<Longrightarrow> float_of x = float_of w"
  by (cases c) auto


lemma number_new_plain_facts:
  assumes "number_new c (RPlain v) kw = Inr n" and "kw_convert_to kw = None"
  shows "cls n = c"
    and "args n = \<lparr>unit = kw_unit kw, prefix = (case kw_prefix kw of None \<Rightarrow> ''metric'' | Some q \<Rightarrow> q),
                   hide_unit = (case kw_hide_unit kw of None \<Rightarrow> False | Some h \<Rightarrow> h),
                   min_v = kw_min kw, max_v = kw_max kw, precise = kw_precise kw\<rparr>"
    and "prefix (args n) = ''binary'' \<or> prefix (args n) = ''metric''"
    and "check_bounds (val n) (kw_min kw) (kw_max kw) = None"
    and "c = IntCls \<longrightarrow> (\<exists>j. val n = PyInt j)"
proof -
  from assms obtain v' where r: "(if c = IntCls then py_round v else Inr v) = Inr v'"
    and f: "finish c v' (kw_unit kw) (case kw_prefix kw of None \<Rightarrow> ''metric'' | Some q \<Rightarrow> q)
              (case kw_hide_unit kw of None \<Rightarrow> False | Some h \<Rightarrow> h)
              (kw_min kw) (kw_max kw) (kw_precise kw) = Inr n"
    by (auto simp: number_new_plain split: sum.splits)
  note ff = finish_Inr [OF f]
  from ff(1) show "cls n = c" .
  from ff(2) show "args n = \<lparr>unit = kw_unit kw, prefix = (case kw_prefix kw of None \<Rightarrow> ''metric'' | Some q \<Rightarrow> q),
                   hide_unit = (case kw_hide_unit kw of None \<Rightarrow> False | Some h \<Rightarrow> h),
                   min_v = kw_min kw, max_v = kw_max kw, precise = kw_precise kw\<rparr>" .
  from ff(2,3) show "prefix (args n) = ''binary'' \<or> prefix (args n) = ''metric''" by simp
  have sh: "c = IntCls \<longrightarrow> (\<exists>j. v' = PyInt j)"
    using r py_round_shape by (auto split: if_splits)
  from parent_value_float_of [OF ff(5) sh] have "float_of (val n) = float_of v'" .
  with ff(4) show "check_bounds (val n) (kw_min kw) (kw_max kw) = None"
    using check_bounds_float_of [of "val n" v'] by simp
  from ff(5) sh show "c = IntCls \<longrightarrow> (\<exists>j. val n = PyInt j)" by (metis parent_value.simps(2) sum.inject(2))
qed








end
